theory Spec2Isabelle
  imports Complex_Main "HOL-Library.Sublist"
begin

section \<open>Python values and the builtins the service uses\<close>

text \<open>
  The service is Python. Its data are JSON-like values: what \<^verbatim>\<open>json.loads\<close> hands
  back and what the dictionary literals of the source build. A dictionary is an
  association list read with \<open>map_of\<close> (the first binding of a key), a \<^verbatim>\<open>str\<close> is
  a \<open>string\<close>. Characters are 8-bit; case mapping and white space are those of ASCII,
  where Python uses the Unicode tables.
\<close>

datatype pyfloat = Fin rat | NegZero | PosInf | NegInf | NaN

datatype pyval =
    PNone
  | PBool bool
  | PInt int
  | PFloat pyfloat
  | PStr string
  | PList "pyval list"
  | PDict "(string \<times> pyval) list"

datatype py_error = AttributeError | TypeError | ValueError | OverflowError

subsection \<open>Strings\<close>

definition lower_char :: "char \<Rightarrow> char" where
  "lower_char c =
     (let n = (of_char c :: nat) in if 65 \<le> n \<and> n \<le> 90 then char_of (n + 32) else c)"

definition upper_char :: "char \<Rightarrow> char" where
  "upper_char c =
     (let n = (of_char c :: nat) in if 97 \<le> n \<and> n \<le> 122 then char_of (n - 32) else c)"

definition py_lower :: "string \<Rightarrow> string" where
  "py_lower s = map lower_char s"

definition py_upper :: "string \<Rightarrow> string" where
  "py_upper s = map upper_char s"

text \<open>\<^verbatim>\<open>sub in s\<close>: \<open>sub\<close> occurs in \<open>s\<close> as a contiguous run.\<close>

fun py_contains :: "string \<Rightarrow> string \<Rightarrow> bool" where
  "py_contains sub [] = (sub = [])"
| "py_contains sub (c # cs) = (prefix sub (c # cs) \<or> py_contains sub cs)"

definition py_endswith :: "string \<Rightarrow> string \<Rightarrow> bool" where
  "py_endswith s suf = suffix suf s"

text \<open>
  \<^verbatim>\<open>s.replace(old, new)\<close>: every occurrence of \<open>old\<close>, found left to right without
  overlap, becomes \<open>new\<close>; the text is scanned once. An empty \<open>old\<close> matches
  before every character and at the end.
\<close>

function py_replace :: "string \<Rightarrow> string \<Rightarrow> string \<Rightarrow> string" where
  "py_replace old new s =
     (if old = [] then new @ concat (map (\<lambda>c. c # new) s)
      else case s of
        [] \<Rightarrow> []
      | c # cs \<Rightarrow>
          if prefix old s then new @ py_replace old new (drop (length old) s)
          else c # py_replace old new cs)"
  by pat_completeness auto
termination
  by (relation "measure (\<lambda>(old, new, s). length s)") auto

declare py_replace.simps [simp del]

text \<open>
  \<^verbatim>\<open>s.split(sep)\<close> for a separator that is not empty (the service splits at
  \<^verbatim>\<open>"."\<close> and at \<^verbatim>\<open>"LIMIT"\<close> only; Python raises ValueError for an empty one).
  \<open>acc\<close> holds the current piece, reversed. The result is never empty.
\<close>

function split_acc :: "string \<Rightarrow> string \<Rightarrow> string \<Rightarrow> string list" where
  "split_acc sep acc s =
     (case s of
        [] \<Rightarrow> [rev acc]
      | c # cs \<Rightarrow>
          if sep \<noteq> [] \<and> prefix sep s then rev acc # split_acc sep [] (drop (length sep) s)
          else split_acc sep (c # acc) cs)"
  by pat_completeness auto
termination
  by (relation "measure (\<lambda>(sep, acc, s). length s)") auto

declare split_acc.simps [simp del]

definition split_on :: "string \<Rightarrow> string \<Rightarrow> string list" where
  "split_on sep s = split_acc sep [] s"

definition is_space :: "char \<Rightarrow> bool" where
  "is_space c = (let n = (of_char c :: nat) in (9 \<le> n \<and> n \<le> 13) \<or> (28 \<le> n \<and> n \<le> 32))"

definition py_strip :: "string \<Rightarrow> string" where
  "py_strip s = rev (dropWhile is_space (rev (dropWhile is_space s)))"

text \<open>Decimal digits of an integer, as \<^verbatim>\<open>str(n)\<close> and an f-string write them.\<close>

definition show_digit :: "int \<Rightarrow> char" where
  "show_digit d = char_of (48 + d)"

function show_pos :: "int \<Rightarrow> string" where
  "show_pos n = (if n < 10 then [show_digit n] else show_pos (n div 10) @ [show_digit (n mod 10)])"
  by pat_completeness auto
termination
  by (relation "measure nat") auto

declare show_pos.simps [simp del]

definition show_int :: "int \<Rightarrow> string" where
  "show_int i = (if i < 0 then CHR ''-'' # show_pos (- i) else show_pos i)"

definition show_nat :: "nat \<Rightarrow> string" where
  "show_nat n = show_pos (int n)"

section \<open>The intent classifier's keyword fallback\<close>

text \<open>
  \<^verbatim>\<open>AIAgent._fallback_query_generation\<close> (ai_agent.py). The result is the dictionary
  the source returns, with the keys \<^verbatim>\<open>intent\<close> and \<^verbatim>\<open>query\<close>. The \<^verbatim>\<open>limit\<close> of
  the products branch is 5 on both paths of its inner \<^verbatim>\<open>if\<close>.
\<close>

definition fallback_query_generation :: "string \<Rightarrow> (string \<times> pyval) list" where
  "fallback_query_generation question =
     (let question_lower = py_lower question in
      if py_contains ''inventory'' question_lower \<or> py_contains ''stock'' question_lower then
        (if py_contains ''out of stock'' question_lower \<or> py_contains ''low'' question_lower
         then [(''intent'', PStr ''inventory''),
               (''query'', PStr ''SHOW inventory_levels FROM products WHERE quantity < 20'')]
         else [(''intent'', PStr ''inventory''),
               (''query'', PStr ''SHOW inventory_levels FROM products'')])
      else if py_contains ''top'' question_lower \<and> py_contains ''product'' question_lower then
        (let limit = (5::int);
             limit = (if py_contains ''5'' question \<or> py_contains ''five'' question_lower
                      then 5 else limit)
         in [(''intent'', PStr ''products''),
             (''query'', PStr (''SHOW top_selling_products FROM orders SINCE -7d LIMIT '' @ show_int limit))])
      else if py_contains ''customer'' question_lower \<or> py_contains ''repeat'' question_lower then
        [(''intent'', PStr ''customers''),
         (''query'', PStr ''SHOW repeat_customers FROM orders SINCE -90d'')]
      else if py_contains ''sales'' question_lower \<or> py_contains ''revenue'' question_lower then
        [(''intent'', PStr ''sales''),
         (''query'', PStr ''SHOW total_sales FROM orders SINCE -30d'')]
      else
        [(''intent'', PStr ''sales''),
         (''query'', PStr ''SHOW total_sales FROM orders SINCE -30d'')])"

section \<open>Numbers\<close>

text \<open>
  A Python \<^verbatim>\<open>float\<close> is an IEEE double. A finite one is kept by its exact value,
  a rational; \<open>to_double\<close> rounds a rational to the nearest double, ties to the even
  significand, as the reading of a literal such as \<^verbatim>\<open>277.79\<close> and the
  conversion of an \<^verbatim>\<open>int\<close> do.
\<close>

function nbits :: "int \<Rightarrow> int" where
  "nbits n = (if n \<le> 0 then 0 else 1 + nbits (n div 2))"
  by pat_completeness auto
termination
  by (relation "measure nat") auto

declare nbits.simps [simp del]

definition ilog2 :: "rat \<Rightarrow> int" where
  "ilog2 a =
     (let (p, q) = quotient_of a;
          e0 = nbits p - nbits q
      in if 2 powi e0 \<le> a then e0 else e0 - 1)"

definition round_half_even :: "rat \<Rightarrow> int" where
  "round_half_even x =
     (let f = \<lfloor>x\<rfloor>; d = x - of_int f
      in if d < 1 / 2 then f else if 1 / 2 < d then f + 1 else if even f then f else f + 1)"

definition to_double :: "rat \<Rightarrow> pyfloat" where
  "to_double r =
     (if r = 0 then Fin 0
      else
        let a = \<bar>r\<bar>;
            s = max (ilog2 a - 52) (- 1074);
            m = round_half_even (a / 2 powi s);
            v = of_int m * 2 powi s
        in if 2 ^ 1024 \<le> v then (if 0 < r then PosInf else NegInf)
           else if m = 0 then (if 0 < r then Fin 0 else NegZero)
           else Fin (if 0 < r then v else - v))"

text \<open>\<^verbatim>\<open>float(n)\<close> for an \<^verbatim>\<open>int\<close>: OverflowError beyond the range of a double.\<close>

definition int_to_float :: "int \<Rightarrow> py_error + pyfloat" where
  "int_to_float n =
     (case to_double (of_int n) of
        PosInf \<Rightarrow> Inl OverflowError
      | NegInf \<Rightarrow> Inl OverflowError
      | f \<Rightarrow> Inr f)"

text \<open>
  The format \<^verbatim>\<open>:.2f\<close>. A float is rounded to two decimals from its exact value,
  ties to even, and keeps its sign; an \<^verbatim>\<open>int\<close> or \<^verbatim>\<open>bool\<close> is converted to a float
  first; a \<^verbatim>\<open>str\<close> raises ValueError, every other value TypeError.
\<close>

definition fixed2 :: "rat \<Rightarrow> string" where
  "fixed2 r =
     (let n = round_half_even (\<bar>r\<bar> * 100)
      in (if r < 0 then ''-'' else '''') @ show_pos (n div 100) @ ''.'' @
         [show_digit (n mod 100 div 10), show_digit (n mod 10)])"

fun format_float_2f :: "pyfloat \<Rightarrow> string" where
  "format_float_2f (Fin r) = fixed2 r"
| "format_float_2f NegZero = ''-0.00''"
| "format_float_2f PosInf = ''inf''"
| "format_float_2f NegInf = ''-inf''"
| "format_float_2f NaN = ''nan''"

fun format_2f :: "pyval \<Rightarrow> py_error + string" where
  "format_2f (PFloat f) = Inr (format_float_2f f)"
| "format_2f (PInt n) =
     (case int_to_float n of Inl e \<Rightarrow> Inl e | Inr f \<Rightarrow> Inr (format_float_2f f))"
| "format_2f (PBool b) =
     (case int_to_float (if b then 1 else 0) of Inl e \<Rightarrow> Inl e | Inr f \<Rightarrow> Inr (format_float_2f f))"
| "format_2f (PStr s) = Inl ValueError"
| "format_2f PNone = Inl TypeError"
| "format_2f (PList xs) = Inl TypeError"
| "format_2f (PDict d) = Inl TypeError"

text \<open>\<^verbatim>\<open>x < n\<close> for an \<^verbatim>\<open>int\<close> literal \<open>n\<close>: numbers compare, anything else raises TypeError.\<close>

fun float_lt_int :: "pyfloat \<Rightarrow> int \<Rightarrow> bool" where
  "float_lt_int (Fin r) n = (r < of_int n)"
| "float_lt_int NegZero n = (0 < n)"
| "float_lt_int PosInf n = False"
| "float_lt_int NegInf n = True"
| "float_lt_int NaN n = False"

fun py_lt_int :: "pyval \<Rightarrow> int \<Rightarrow> py_error + bool" where
  "py_lt_int (PInt i) n = Inr (i < n)"
| "py_lt_int (PBool b) n = Inr ((if b then 1 else 0) < n)"
| "py_lt_int (PFloat f) n = Inr (float_lt_int f n)"
| "py_lt_int PNone n = Inl TypeError"
| "py_lt_int (PStr s) n = Inl TypeError"
| "py_lt_int (PList xs) n = Inl TypeError"
| "py_lt_int (PDict d) n = Inl TypeError"

subsection \<open>Truth values, dictionaries, sequences\<close>

fun truthy :: "pyval \<Rightarrow> bool" where
  "truthy PNone = False"
| "truthy (PBool b) = b"
| "truthy (PInt n) = (n \<noteq> 0)"
| "truthy (PFloat f) = (f \<noteq> Fin 0 \<and> f \<noteq> NegZero)"
| "truthy (PStr s) = (s \<noteq> [])"
| "truthy (PList xs) = (xs \<noteq> [])"
| "truthy (PDict d) = (d \<noteq> [])"

text \<open>\<^verbatim>\<open>d.get(k, dflt)\<close> on a dictionary, and on any value: only a dictionary has \<^verbatim>\<open>get\<close>.\<close>

definition dict_get :: "(string \<times> pyval) list \<Rightarrow> string \<Rightarrow> pyval \<Rightarrow> pyval" where
  "dict_get d k dflt = (case map_of d k of Some v \<Rightarrow> v | None \<Rightarrow> dflt)"

fun py_get :: "pyval \<Rightarrow> string \<Rightarrow> pyval \<Rightarrow> py_error + pyval" where
  "py_get (PDict d) k dflt = Inr (dict_get d k dflt)"
| "py_get v k dflt = Inl AttributeError"

fun py_len :: "pyval \<Rightarrow> py_error + nat" where
  "py_len (PList xs) = Inr (length xs)"
| "py_len (PStr s) = Inr (length s)"
| "py_len (PDict d) = Inr (length d)"
| "py_len v = Inl TypeError"

text \<open>\<^verbatim>\<open>v[:k]\<close>: a negative \<open>k\<close> counts from the end; only sequences can be sliced.\<close>

definition slice_stop :: "int \<Rightarrow> nat \<Rightarrow> nat" where
  "slice_stop k n = (if k < 0 then nat (max 0 (int n + k)) else nat k)"

fun py_slice_to :: "pyval \<Rightarrow> int \<Rightarrow> py_error + pyval" where
  "py_slice_to (PList xs) k = Inr (PList (take (slice_stop k (length xs)) xs))"
| "py_slice_to (PStr s) k = Inr (PStr (take (slice_stop k (length s)) s))"
| "py_slice_to v k = Inl TypeError"

text \<open>Iteration: a list gives its elements, a string its characters, a dictionary its keys.\<close>

fun py_iter :: "pyval \<Rightarrow> py_error + pyval list" where
  "py_iter (PList xs) = Inr xs"
| "py_iter (PStr s) = Inr (map (\<lambda>c. PStr [c]) s)"
| "py_iter (PDict d) = Inr (map (\<lambda>kv. PStr (fst kv)) d)"
| "py_iter v = Inl TypeError"

text \<open>
  The builtins whose result is fixed by the Python runtime and not by this repository
  are parameters of the model: \<^verbatim>\<open>str(v)\<close> of a value that is not a \<^verbatim>\<open>str\<close>, the
  message \<^verbatim>\<open>str(e)\<close> of an exception, \<^verbatim>\<open>int(s)\<close> and \<^verbatim>\<open>float(s)\<close> of a
  \<^verbatim>\<open>str\<close> (\<open>None\<close> where they raise ValueError), and \<^verbatim>\<open>sum\<close> over floats, starting
  from the \<^verbatim>\<open>int\<close> 0.
\<close>

record py_runtime =
  str_of :: "pyval \<Rightarrow> string"
  exc_str :: "py_error \<Rightarrow> string"
  int_of_str :: "string \<Rightarrow> int option"
  float_of_str :: "string \<Rightarrow> pyfloat option"
  float_sum :: "pyfloat list \<Rightarrow> pyfloat"

text \<open>A value inside an f-string: a \<^verbatim>\<open>str\<close> is itself.\<close>

definition fmt_str :: "py_runtime \<Rightarrow> pyval \<Rightarrow> string" where
  "fmt_str py v = (case v of PStr s \<Rightarrow> s | _ \<Rightarrow> str_of py v)"

fun py_float :: "py_runtime \<Rightarrow> pyval \<Rightarrow> py_error + pyfloat" where
  "py_float py (PFloat f) = Inr f"
| "py_float py (PInt n) = int_to_float n"
| "py_float py (PBool b) = int_to_float (if b then 1 else 0)"
| "py_float py (PStr s) = (case float_of_str py s of None \<Rightarrow> Inl ValueError | Some f \<Rightarrow> Inr f)"
| "py_float py v = Inl TypeError"

subsection \<open>Raising and catching\<close>

text \<open>
  A call that may raise returns \<open>py_error + 'a\<close>. \<open>and_then\<close> runs the next statement
  when the previous one did not raise; \<open>swallow\<close> is \<^verbatim>\<open>except Exception: pass\<close>.
\<close>

fun and_then :: "'e + 'a \<Rightarrow> ('a \<Rightarrow> 'e + 'b) \<Rightarrow> 'e + 'b" where
  "and_then (Inl e) f = Inl e"
| "and_then (Inr x) f = f x"

fun swallow :: "'e + 'a \<Rightarrow> 'a option" where
  "swallow (Inl e) = None"
| "swallow (Inr x) = Some x"

type_synonym pydict = "(string \<times> pyval) list"

section \<open>The Shopify client\<close>

subsection \<open>Mock data\<close>

text \<open>\<^verbatim>\<open>ShopifyClient._get_mock_data\<close> (shopify_client.py). The query is not read.\<close>

definition mock_inventory :: pyval where
  "mock_inventory = PList
     [PDict [(''product_id'', PInt 1), (''product_name'', PStr ''Product A''),
             (''quantity'', PInt 15), (''location'', PStr ''Main Warehouse'')],
      PDict [(''product_id'', PInt 2), (''product_name'', PStr ''Product B''),
             (''quantity'', PInt 5), (''location'', PStr ''Main Warehouse'')],
      PDict [(''product_id'', PInt 3), (''product_name'', PStr ''Product C''),
             (''quantity'', PInt 45), (''location'', PStr ''Main Warehouse'')]]"

definition mock_products :: pyval where
  "mock_products = PList
     [PDict [(''id'', PInt 1), (''title'', PStr ''Product X''),
             (''price'', PStr ''29.99''), (''sales_count'', PInt 150)],
      PDict [(''id'', PInt 2), (''title'', PStr ''Product Y''),
             (''price'', PStr ''49.99''), (''sales_count'', PInt 120)],
      PDict [(''id'', PInt 3), (''title'', PStr ''Product Z''),
             (''price'', PStr ''19.99''), (''sales_count'', PInt 100)]]"

definition mock_sales :: pyval where
  "mock_sales = PDict
     [(''total_sales'', PFloat (to_double 12500.50)),
      (''order_count'', PInt 45),
      (''average_order_value'', PFloat (to_double 277.79)),
      (''period'', PStr ''last 30 days'')]"

definition mock_customers :: pyval where
  "mock_customers = PDict
     [(''customer_count'', PInt 120),
      (''repeat_customers'', PInt 35),
      (''repeat_rate'', PFloat (to_double 29.2))]"

definition get_mock_data :: "pyval \<Rightarrow> pyval \<Rightarrow> pydict" where
  "get_mock_data query_type query =
     (if query_type = PStr ''inventory'' then [(''data'', mock_inventory), (''success'', PBool True)]
      else if query_type = PStr ''products'' then [(''data'', mock_products), (''success'', PBool True)]
      else if query_type = PStr ''sales'' then [(''data'', mock_sales), (''success'', PBool True)]
      else if query_type = PStr ''customers'' then [(''data'', mock_customers), (''success'', PBool True)]
      else [(''data'', PDict []), (''success'', PBool True)])"

subsection \<open>Store domain\<close>

text \<open>\<^verbatim>\<open>ShopifyClient._normalize_shop\<close>.\<close>

definition normalize_shop :: "string \<Rightarrow> string" where
  "normalize_shop store_id =
     (let shop = py_replace ''http://'' '''' (py_replace ''https://'' '''' store_id)
      in if \<not> py_endswith shop ''.myshopify.com'' then
           (let shop = (if py_contains ''.'' shop then hd (split_on ''.'' shop) else shop)
            in shop @ ''.myshopify.com'')
         else shop)"

subsection \<open>The world outside\<close>

text \<open>
  What the process reads and calls: the environment variables, the one HTTP GET of a
  request (its URL and headers in, its outcome out) and the two chat completions. An
  HTTP call raises, or answers with a status and a body whose \<^verbatim>\<open>json()\<close> is a value
  or raises. A chat completion raises (also when its content is not JSON) or replies
  with the parsed value; the classifier's prompt depends on the question, the
  explainer's on the question, the data and the query type.
\<close>

datatype http_outcome = HttpRaises | HttpResponse int "py_error + pyval"

datatype llm_outcome = LLMRaises | LLMReply pyval

record world =
  getenv :: "string \<Rightarrow> string option"
  http_get :: "string \<Rightarrow> (string \<times> string) list \<Rightarrow> http_outcome"
  llm_classify :: "string \<Rightarrow> llm_outcome"
  llm_explain :: "string \<Rightarrow> pyval \<Rightarrow> pyval \<Rightarrow> llm_outcome"

definition api_version :: string where
  "api_version = ''2024-01''"

subsection \<open>Live calls\<close>

text \<open>
  Each \<^verbatim>\<open>_get_*_data\<close> returns the URLs it requested and its result. Inside
  \<^verbatim>\<open>try\<close>, a status other than 200 returns nothing and every exception is swallowed;
  the mock data of the intent follow.
\<close>

definition get_inventory_data :: "world \<Rightarrow> string \<Rightarrow> string \<Rightarrow> string list \<times> pydict" where
  "get_inventory_data w shop access_token =
     (let url = ''https://'' @ shop @ ''/admin/api/'' @ api_version @ ''/inventory_levels.json'';
          headers = [(''X-Shopify-Access-Token'', access_token)];
          live =
            (case http_get w url headers of
               HttpRaises \<Rightarrow> None
             | HttpResponse status_code json \<Rightarrow>
                 if status_code = 200 then
                   swallow (and_then json (\<lambda>data.
                     and_then (py_get data ''inventory_levels'' (PList [])) (\<lambda>levels.
                       Inr [(''data'', levels), (''success'', PBool True)])))
                 else None)
      in ([url],
          case live of Some r \<Rightarrow> r | None \<Rightarrow> get_mock_data (PStr ''inventory'') (PStr '''')))"

text \<open>
  \<^verbatim>\<open>_get_products_data\<close>: \<^verbatim>\<open>query.upper()\<close> stands outside \<^verbatim>\<open>try\<close>, so a query
  that is not a \<^verbatim>\<open>str\<close> raises AttributeError before any request. The limit is the
  text between the first and the second \<^verbatim>\<open>LIMIT\<close>, stripped and read by \<^verbatim>\<open>int\<close>,
  and stays 5 when that fails.
\<close>

definition parse_limit :: "py_runtime \<Rightarrow> string \<Rightarrow> int" where
  "parse_limit py query =
     (let limit = 5 in
      if py_contains ''LIMIT'' (py_upper query) then
        (case split_on ''LIMIT'' (py_upper query) of
           a # b # rest \<Rightarrow> (case int_of_str py (py_strip b) of Some n \<Rightarrow> n | None \<Rightarrow> limit)
         | _ \<Rightarrow> limit)
      else limit)"

definition get_products_data ::
  "py_runtime \<Rightarrow> world \<Rightarrow> string \<Rightarrow> string \<Rightarrow> pyval \<Rightarrow> string list \<times> (py_error + pydict)" where
  "get_products_data py w shop access_token query =
     (case query of
        PStr q \<Rightarrow>
          (let limit = parse_limit py q;
               url = ''https://'' @ shop @ ''/admin/api/'' @ api_version @
                     ''/products.json?limit='' @ show_int limit;
               headers = [(''X-Shopify-Access-Token'', access_token)];
               live =
                 (case http_get w url headers of
                    HttpRaises \<Rightarrow> None
                  | HttpResponse status_code json \<Rightarrow>
                      if status_code = 200 then
                        swallow (and_then json (\<lambda>data.
                          and_then (py_get data ''products'' (PList [])) (\<lambda>products.
                            and_then (py_slice_to products limit) (\<lambda>first.
                              Inr [(''data'', first), (''success'', PBool True)]))))
                      else None)
           in ([url],
               Inr (case live of Some r \<Rightarrow> r | None \<Rightarrow> get_mock_data (PStr ''products'') query)))
      | _ \<Rightarrow> ([], Inl AttributeError))"

text \<open>
  \<^verbatim>\<open>_get_orders_data\<close>: \<^verbatim>\<open>sum(float(order.get("total_price", 0)) for order in orders)\<close>
  is the \<^verbatim>\<open>int\<close> 0 over no orders and a float otherwise.
\<close>

fun total_prices :: "py_runtime \<Rightarrow> pyval list \<Rightarrow> py_error + pyfloat list" where
  "total_prices py [] = Inr []"
| "total_prices py (order # orders) =
     and_then (py_get order ''total_price'' (PInt 0)) (\<lambda>price.
       and_then (py_float py price) (\<lambda>f.
         and_then (total_prices py orders) (\<lambda>fs. Inr (f # fs))))"

definition sum_total_price :: "py_runtime \<Rightarrow> pyval \<Rightarrow> py_error + pyval" where
  "sum_total_price py orders =
     and_then (py_iter orders) (\<lambda>items.
       and_then (total_prices py items) (\<lambda>fs.
         Inr (if fs = [] then PInt 0 else PFloat (float_sum py fs))))"

definition get_orders_data ::
  "py_runtime \<Rightarrow> world \<Rightarrow> string \<Rightarrow> string \<Rightarrow> pyval \<Rightarrow> string list \<times> pydict" where
  "get_orders_data py w shop access_token query =
     (let url = ''https://'' @ shop @ ''/admin/api/'' @ api_version @
                ''/orders.json?status=any&limit=250'';
          headers = [(''X-Shopify-Access-Token'', access_token)];
          live =
            (case http_get w url headers of
               HttpRaises \<Rightarrow> None
             | HttpResponse status_code json \<Rightarrow>
                 if status_code = 200 then
                   swallow (and_then json (\<lambda>data.
                     and_then (py_get data ''orders'' (PList [])) (\<lambda>orders.
                       and_then (sum_total_price py orders) (\<lambda>total_sales.
                         and_then (py_len orders) (\<lambda>order_count.
                           and_then (py_slice_to orders 10) (\<lambda>first.
                             Inr [(''data'', PDict [(''total_sales'', total_sales),
                                                    (''order_count'', PInt (int order_count)),
                                                    (''orders'', first)]),
                                  (''success'', PBool True)]))))))
                 else None)
      in ([url], case live of Some r \<Rightarrow> r | None \<Rightarrow> get_mock_data (PStr ''sales'') query))"

definition get_customers_data ::
  "world \<Rightarrow> string \<Rightarrow> string \<Rightarrow> pyval \<Rightarrow> string list \<times> pydict" where
  "get_customers_data w shop access_token query =
     (let url = ''https://'' @ shop @ ''/admin/api/'' @ api_version @
                ''/customers.json?limit=250'';
          headers = [(''X-Shopify-Access-Token'', access_token)];
          live =
            (case http_get w url headers of
               HttpRaises \<Rightarrow> None
             | HttpResponse status_code json \<Rightarrow>
                 if status_code = 200 then
                   swallow (and_then json (\<lambda>data.
                     and_then (py_get data ''customers'' (PList [])) (\<lambda>customers.
                       and_then (py_len customers) (\<lambda>customer_count.
                         and_then (py_slice_to customers 10) (\<lambda>first.
                           Inr [(''data'', PDict [(''customer_count'', PInt (int customer_count)),
                                                  (''customers'', first)]),
                                (''success'', PBool True)])))))
                 else None)
      in ([url], case live of Some r \<Rightarrow> r | None \<Rightarrow> get_mock_data (PStr ''customers'') query))"

subsection \<open>\<^verbatim>\<open>execute_query\<close>\<close>

text \<open>
  \<^verbatim>\<open>ShopifyClient.execute_query\<close>. The access token is the environment variable named
  after the normalised domain, \<^verbatim>\<open>""\<close> when it is not set; without one the mock data
  are returned at once.
\<close>

definition token_variable :: "string \<Rightarrow> string" where
  "token_variable shop = ''SHOPIFY_ACCESS_TOKEN_'' @ py_replace ''.'' ''_'' shop"

definition execute_query ::
  "py_runtime \<Rightarrow> world \<Rightarrow> string \<Rightarrow> pyval \<Rightarrow> pyval \<Rightarrow> string list \<times> (py_error + pydict)" where
  "execute_query py w store_id query query_type =
     (let shop = normalize_shop store_id;
          access_token = (case getenv w (token_variable shop) of Some t \<Rightarrow> t | None \<Rightarrow> '''')
      in if access_token = [] then ([], Inr (get_mock_data query_type query))
         else if query_type = PStr ''inventory'' then
           apsnd Inr (get_inventory_data w shop access_token)
         else if query_type = PStr ''products'' then
           get_products_data py w shop access_token query
         else if query_type = PStr ''sales'' then
           apsnd Inr (get_orders_data py w shop access_token query)
         else if query_type = PStr ''customers'' then
           apsnd Inr (get_customers_data w shop access_token query)
         else ([], Inr (get_mock_data query_type query)))"

section \<open>The agent\<close>

subsection \<open>Classification\<close>

text \<open>
  \<^verbatim>\<open>AIAgent._generate_shopifyql_query\<close>. Any exception inside \<^verbatim>\<open>try\<close>, also the
  AttributeError of a reply that is not a dictionary, leads to the keyword fallback.
\<close>

definition generate_shopifyql_query :: "world \<Rightarrow> string \<Rightarrow> string \<Rightarrow> pydict" where
  "generate_shopifyql_query w question store_id =
     (case llm_classify w question of
        LLMRaises \<Rightarrow> fallback_query_generation question
      | LLMReply result \<Rightarrow>
          (case result of
             PDict d \<Rightarrow>
               if truthy (dict_get d ''error'' PNone) then [(''error'', dict_get d ''error'' PNone)]
               else [(''intent'', dict_get d ''intent'' (PStr ''sales'')),
                     (''query'', dict_get d ''query'' (PStr '''')),
                     (''reasoning'', dict_get d ''reasoning'' (PStr ''''))]
           | _ \<Rightarrow> fallback_query_generation question))"

subsection \<open>Explanation\<close>

text \<open>
  \<^verbatim>\<open>AIAgent._fallback_explanation\<close>. The list comprehension over the inventory
  records raises where a record has no \<^verbatim>\<open>get\<close> or its quantity does not compare with
  20; the sales branch raises where the data have no \<^verbatim>\<open>get\<close> or the total cannot be
  formatted.
\<close>

fun low_stock :: "pyval list \<Rightarrow> py_error + pyval list" where
  "low_stock [] = Inr []"
| "low_stock (item # items) =
     and_then (py_get item ''quantity'' (PInt 0)) (\<lambda>quantity.
       and_then (py_lt_int quantity 20) (\<lambda>low.
         and_then (low_stock items) (\<lambda>rest. Inr (if low then item # rest else rest))))"

definition no_data_message :: string where
  "no_data_message =
     ''I couldn'' @ [CHR 0x27] @
     ''t retrieve the requested data. Please check your store connection and try again.''"

definition generic_explanation :: "py_runtime \<Rightarrow> pyval \<Rightarrow> pydict" where
  "generic_explanation py query_type =
     [(''answer'', PStr (''Retrieved '' @ fmt_str py query_type @
                         '' data. Review the details for insights.'')),
      (''confidence'', PStr ''medium'')]"

definition fallback_explanation ::
  "py_runtime \<Rightarrow> string \<Rightarrow> pyval \<Rightarrow> pyval \<Rightarrow> py_error + pydict" where
  "fallback_explanation py question data query_type =
     (if \<not> truthy data then
        Inr [(''answer'', PStr no_data_message), (''confidence'', PStr ''low'')]
      else if query_type = PStr ''inventory'' then
        (case data of
           PList items \<Rightarrow>
             if 0 < length items then
               and_then (low_stock items) (\<lambda>low_stock.
                 Inr [(''answer'', PStr (''Found '' @ show_nat (length low_stock) @
                        '' products with low inventory (less than 20 units). Consider reordering soon.'')),
                      (''confidence'', PStr ''medium'')])
             else
               Inr [(''answer'', PStr ''Inventory data retrieved. Review the details to make reordering decisions.''),
                    (''confidence'', PStr ''medium'')]
         | _ \<Rightarrow>
             Inr [(''answer'', PStr ''Inventory data retrieved. Review the details to make reordering decisions.''),
                  (''confidence'', PStr ''medium'')])
      else if query_type = PStr ''products'' then
        (case data of
           PList items \<Rightarrow>
             Inr [(''answer'', PStr (''Found '' @ show_nat (length items) @
                    '' top-selling products. Review the list to identify your best performers.'')),
                  (''confidence'', PStr ''medium'')]
         | _ \<Rightarrow> Inr (generic_explanation py query_type))
      else if query_type = PStr ''sales'' then
        and_then (py_get data ''sales'' (PInt 0)) (\<lambda>sales.
          and_then (py_get data ''total_sales'' sales) (\<lambda>total.
            and_then (format_2f total) (\<lambda>amount.
              Inr [(''answer'', PStr (''Total sales: $'' @ amount @ '' for the requested period.'')),
                   (''confidence'', PStr ''medium'')])))
      else Inr (generic_explanation py query_type))"

text \<open>\<^verbatim>\<open>AIAgent._generate_explanation\<close>.\<close>

definition generate_explanation ::
  "py_runtime \<Rightarrow> world \<Rightarrow> string \<Rightarrow> pyval \<Rightarrow> pyval \<Rightarrow> py_error + pydict" where
  "generate_explanation py w question data query_type =
     (case llm_explain w question data query_type of
        LLMRaises \<Rightarrow> fallback_explanation py question data query_type
      | LLMReply result \<Rightarrow>
          (case result of
             PDict d \<Rightarrow>
               Inr [(''answer'', dict_get d ''answer'' (PStr ''Unable to generate explanation'')),
                    (''confidence'', dict_get d ''confidence'' (PStr ''medium''))]
           | _ \<Rightarrow> fallback_explanation py question data query_type))"

subsection \<open>The pipeline\<close>

text \<open>
  \<^verbatim>\<open>AIAgent.process_question\<close>. An exception of any step is caught at the end and
  becomes the \<^verbatim>\<open>error\<close> entry of the result.
\<close>

definition agent_error :: "py_runtime \<Rightarrow> py_error \<Rightarrow> pydict" where
  "agent_error py e = [(''error'', PStr (''Agent processing error: '' @ exc_str py e))]"

definition process_question :: "py_runtime \<Rightarrow> world \<Rightarrow> string \<Rightarrow> string \<Rightarrow> pydict" where
  "process_question py w question store_id =
     (let query_result = generate_shopifyql_query w question store_id in
      if truthy (dict_get query_result ''error'' PNone) then query_result
      else
        let shopifyql_query = dict_get query_result ''query'' PNone;
            intent = dict_get query_result ''intent'' PNone
        in case snd (execute_query py w store_id shopifyql_query intent) of
             Inl e \<Rightarrow> agent_error py e
           | Inr data_result \<Rightarrow>
               if truthy (dict_get data_result ''error'' PNone) then
                 [(''error'', PStr (''Failed to execute query: '' @
                                    fmt_str py (dict_get data_result ''error'' PNone))),
                  (''query_used'', shopifyql_query)]
               else
                 (case generate_explanation py w question
                         (dict_get data_result ''data'' (PDict [])) intent of
                    Inl e \<Rightarrow> agent_error py e
                  | Inr explanation \<Rightarrow>
                      [(''answer'', dict_get explanation ''answer'' (PStr ''Unable to generate answer'')),
                       (''confidence'', dict_get explanation ''confidence'' (PStr ''medium'')),
                       (''query_used'', shopifyql_query),
                       (''data'', dict_get data_result ''data'' PNone)]))"

section \<open>Notions used in the statements\<close>

text \<open>
  The records of an inventory list: one lacks a quantity, one carries a quantity that
  compares with a number, one carries a quantity below 20.
\<close>

fun is_number :: "pyval \<Rightarrow> bool" where
  "is_number (PInt n) = True"
| "is_number (PBool b) = True"
| "is_number (PFloat f) = True"
| "is_number v = False"

definition lacks_quantity :: "pyval \<Rightarrow> bool" where
  "lacks_quantity item = (case item of PDict d \<Rightarrow> map_of d ''quantity'' = None | _ \<Rightarrow> False)"

definition quantity_ok :: "pyval \<Rightarrow> bool" where
  "quantity_ok item =
     (case item of
        PDict d \<Rightarrow> (case map_of d ''quantity'' of None \<Rightarrow> True | Some v \<Rightarrow> is_number v)
      | _ \<Rightarrow> False)"

definition quantity_below_20 :: "pyval \<Rightarrow> bool" where
  "quantity_below_20 item =
     (case item of
        PDict d \<Rightarrow>
          (case map_of d ''quantity'' of None \<Rightarrow> False | Some v \<Rightarrow> py_lt_int v 20 = Inr True)
      | _ \<Rightarrow> False)"

text \<open>The total the sales explanation reads: \<^verbatim>\<open>data.get("total_sales", data.get("sales", 0))\<close>.\<close>

definition sales_total :: "pydict \<Rightarrow> pyval" where
  "sales_total d = dict_get d ''total_sales'' (dict_get d ''sales'' (PInt 0))"

text \<open>The inputs on which \<open>fallback_explanation\<close> returns and does not raise.\<close>

definition explanation_returns :: "pyval \<Rightarrow> pyval \<Rightarrow> bool" where
  "explanation_returns data query_type =
     (\<not> truthy data \<or>
      (if query_type = PStr ''inventory'' then
         (case data of PList items \<Rightarrow> list_all quantity_ok items | _ \<Rightarrow> True)
       else if query_type = PStr ''sales'' then
         (case data of PDict d \<Rightarrow> \<not> isl (format_2f (sales_total d)) | _ \<Rightarrow> False)
       else True))"



text \<open>
  A runtime and a world for concrete runs. The runtime's builtins are constant (the
  runs below do not reach them). \<open>offline_world\<close> has no environment variable set and
  every outside call raises; \<open>failing_shop_world\<close> has a token for every store and a
  Shopify that answers 503.
\<close>

definition stub_runtime :: py_runtime where
  "stub_runtime =
     \<lparr>str_of = (\<lambda>v. []), exc_str = (\<lambda>e. []), int_of_str = (\<lambda>s. None),
      float_of_str = (\<lambda>s. None), float_sum = (\<lambda>fs. NaN)\<rparr>"

definition offline_world :: world where
  "offline_world =
     \<lparr>getenv = (\<lambda>name. None), http_get = (\<lambda>url headers. HttpRaises),
      llm_classify = (\<lambda>question. LLMRaises),
      llm_explain = (\<lambda>question data query_type. LLMRaises)\<rparr>"

definition failing_shop_world :: world where
  "failing_shop_world =
     \<lparr>getenv = (\<lambda>name. Some ''shpat_token''),
      http_get = (\<lambda>url headers. HttpResponse 503 (Inl ValueError)),
      llm_classify = (\<lambda>question. LLMRaises),
      llm_explain = (\<lambda>question data query_type. LLMRaises)\<rparr>"

text \<open>The first statement of \<open>normalize_shop\<close>: both schemes removed, \<^verbatim>\<open>https://\<close> first.\<close>

definition strip_scheme :: "string \<Rightarrow> string" where
  "strip_scheme store_id = py_replace ''http://'' [] (py_replace ''https://'' [] store_id)"

text \<open>
  A live call that fails: the request raises, the status is not 200, or the body is
  not JSON.
\<close>

fun live_call_failed :: "http_outcome \<Rightarrow> bool" where
  "live_call_failed HttpRaises = True"
| "live_call_failed (HttpResponse status_code json) = (status_code \<noteq> 200 \<or> isl json)"

text \<open>
  The path of \<open>process_question\<close> into its branch \<^verbatim>\<open>Failed to execute query\<close>: the
  classifier reports no error, \<open>execute_query\<close> returns, and its result has a truthy
  \<^verbatim>\<open>error\<close> entry.
\<close>

definition failed_to_execute_branch :: "py_runtime \<Rightarrow> world \<Rightarrow> string \<Rightarrow> string \<Rightarrow> bool" where
  "failed_to_execute_branch py w question store_id =
     (let query_result = generate_shopifyql_query w question store_id in
      \<not> truthy (dict_get query_result ''error'' PNone) \<and>
      (case snd (execute_query py w store_id (dict_get query_result ''query'' PNone)
                   (dict_get query_result ''intent'' PNone)) of
         Inl e \<Rightarrow> False
       | Inr data_result \<Rightarrow> truthy (dict_get data_result ''error'' PNone)))"

text \<open>The records of a list that carry a given \<^verbatim>\<open>product_name\<close>.\<close>

definition records_named :: "string \<Rightarrow> pyval \<Rightarrow> pyval list" where
  "records_named name v =
     (case v of
        PList items \<Rightarrow> filter (\<lambda>i. py_get i ''product_name'' PNone = Inr (PStr name)) items
      | _ \<Rightarrow> [])"





section \<open>Properties\<close>

subsection \<open>The keyword fallback of the classifier\<close>

lemma show_int_5: "show_int 5 = ''5''"
  by code_simp

text \<open>
  C5. Every question whose lower-cased text contains both \<^verbatim>\<open>inventory\<close> and \<^verbatim>\<open>low\<close>
  is classified as inventory, with the query that names the threshold
  \<^verbatim>\<open>quantity < 20\<close>.
\<close>

theorem fallback_inventory_low:
  assumes "py_contains ''inventory'' (py_lower question)"
    and "py_contains ''low'' (py_lower question)"
  shows "fallback_query_generation question =
           [(''intent'', PStr ''inventory''),
            (''query'', PStr ''SHOW inventory_levels FROM products WHERE quantity < 20'')]
         \<and> py_contains ''quantity < 20'' ''SHOW inventory_levels FROM products WHERE quantity < 20''"
proof
  show "fallback_query_generation question =
           [(''intent'', PStr ''inventory''),
            (''query'', PStr ''SHOW inventory_levels FROM products WHERE quantity < 20'')]"
    using assms by (simp add: fallback_query_generation_def)
  show "py_contains ''quantity < 20'' ''SHOW inventory_levels FROM products WHERE quantity < 20''"
    by code_simp
qed

theorem fallback_inventory_low_witness:
  "py_contains ''inventory'' (py_lower ''Which Inventory items are LOW?'')
   \<and> py_contains ''low'' (py_lower ''Which Inventory items are LOW?'')
   \<and> fallback_query_generation ''Which Inventory items are LOW?'' =
           [(''intent'', PStr ''inventory''),
            (''query'', PStr ''SHOW inventory_levels FROM products WHERE quantity < 20'')]"
proof -
  have h1: "py_contains ''inventory'' (py_lower ''Which Inventory items are LOW?'')"
    by code_simp
  have h2: "py_contains ''low'' (py_lower ''Which Inventory items are LOW?'')"
    by code_simp
  from fallback_inventory_low [OF h1 h2] h1 h2 show ?thesis by blast
qed

text \<open>
  C4, as stated, fails: the inventory branch is tested first, so a question that
  contains \<^verbatim>\<open>top\<close> and \<^verbatim>\<open>product\<close> and also \<^verbatim>\<open>stock\<close> is classified as inventory.
\<close>

theorem top_product_counterexample:
  "py_contains ''top'' (py_lower ''which top products are low in stock'')
   \<and> py_contains ''product'' (py_lower ''which top products are low in stock'')
   \<and> fallback_query_generation ''which top products are low in stock'' =
        [(''intent'', PStr ''inventory''),
         (''query'', PStr ''SHOW inventory_levels FROM products WHERE quantity < 20'')]"
  by code_simp

text \<open>
  C4, amended. Every question whose lower-cased text contains both \<^verbatim>\<open>top\<close> and
  \<^verbatim>\<open>product\<close>, and neither \<^verbatim>\<open>inventory\<close> nor \<^verbatim>\<open>stock\<close>, is classified as products,
  with a query whose LIMIT is 5.
\<close>

theorem fallback_top_products:
  assumes "py_contains ''top'' (py_lower question)"
    and "py_contains ''product'' (py_lower question)"
    and "\<not> py_contains ''inventory'' (py_lower question)"
    and "\<not> py_contains ''stock'' (py_lower question)"
  shows "fallback_query_generation question =
           [(''intent'', PStr ''products''),
            (''query'', PStr ''SHOW top_selling_products FROM orders SINCE -7d LIMIT 5'')]"
  using assms by (simp add: fallback_query_generation_def show_int_5)

theorem fallback_top_products_witness:
  "py_contains ''top'' (py_lower ''Show the TOP ten products'')
   \<and> py_contains ''product'' (py_lower ''Show the TOP ten products'')
   \<and> \<not> py_contains ''inventory'' (py_lower ''Show the TOP ten products'')
   \<and> \<not> py_contains ''stock'' (py_lower ''Show the TOP ten products'')
   \<and> fallback_query_generation ''Show the TOP ten products'' =
           [(''intent'', PStr ''products''),
            (''query'', PStr ''SHOW top_selling_products FROM orders SINCE -7d LIMIT 5'')]"
proof -
  have h1: "py_contains ''top'' (py_lower ''Show the TOP ten products'')"
    by code_simp
  have h2: "py_contains ''product'' (py_lower ''Show the TOP ten products'')"
    by code_simp
  have h3: "\<not> py_contains ''inventory'' (py_lower ''Show the TOP ten products'')"
    by code_simp
  have h4: "\<not> py_contains ''stock'' (py_lower ''Show the TOP ten products'')"
    by code_simp
  from fallback_top_products [OF h1 h2 h3 h4] h1 h2 h3 h4 show ?thesis by blast
qed

subsection \<open>The fallback explanation\<close>

text \<open>
  C6. On data that are empty or falsy the fallback explanation is the fixed message
  that asks to check the store connection, with confidence low, for every question and
  every intent.
\<close>

theorem fallback_explanation_no_data:
  assumes "\<not> truthy data"
  shows "fallback_explanation py question data query_type =
           Inr [(''answer'', PStr no_data_message), (''confidence'', PStr ''low'')]
         \<and> py_contains ''check your store connection'' no_data_message"
proof
  show "fallback_explanation py question data query_type =
           Inr [(''answer'', PStr no_data_message), (''confidence'', PStr ''low'')]"
    using assms by (simp add: fallback_explanation_def)
  show "py_contains ''check your store connection'' no_data_message"
    by code_simp
qed

theorem fallback_explanation_no_data_witness:
  "\<not> truthy (PDict [])
   \<and> fallback_explanation stub_runtime ''how are sales'' (PDict []) (PStr ''sales'') =
       Inr [(''answer'', PStr no_data_message), (''confidence'', PStr ''low'')]"
proof -
  have h: "\<not> truthy (PDict [])" by simp
  from fallback_explanation_no_data [OF h, of stub_runtime "''how are sales''" "PStr ''sales''"] h
  show ?thesis by blast
qed

lemma is_number_lt: "is_number v \<Longrightarrow> \<exists>b. py_lt_int v n = Inr b"
  by (cases v) auto

lemma not_number_lt: "\<not> is_number v \<Longrightarrow> py_lt_int v n = Inl TypeError"
  by (cases v) auto

lemma low_stock_ok:
  "list_all quantity_ok items \<Longrightarrow>
   low_stock items = Inr (filter (\<lambda>i. lacks_quantity i \<or> quantity_below_20 i) items)"
proof (induction items)
  case Nil
  then show ?case by simp
next
  case (Cons item items)
  from Cons.prems obtain d where d: "item = PDict d"
    by (cases item) (auto simp: quantity_ok_def)
  show ?case
  proof (cases "map_of d ''quantity''")
    case None
    with Cons d show ?thesis
      by (simp add: dict_get_def lacks_quantity_def quantity_below_20_def)
  next
    case (Some v)
    with Cons.prems d have "is_number v" by (simp add: quantity_ok_def)
    then obtain b where "py_lt_int v 20 = Inr b" using is_number_lt by blast
    with Cons d Some show ?thesis
      by (simp add: dict_get_def lacks_quantity_def quantity_below_20_def)
  qed
qed

lemma low_stock_raises:
  "\<not> list_all quantity_ok items \<Longrightarrow> \<exists>e. low_stock items = Inl e"
proof (induction items)
  case Nil
  then show ?case by simp
next
  case (Cons item items)
  show ?case
  proof (cases "quantity_ok item")
    case False
    show ?thesis
    proof (cases item)
      case (PDict d)
      with False obtain v where "map_of d ''quantity'' = Some v" "\<not> is_number v"
        by (auto simp: quantity_ok_def split: option.splits)
      with PDict show ?thesis by (simp add: dict_get_def not_number_lt)
    qed simp_all
  next
    case True
    with Cons.prems have "\<not> list_all quantity_ok items" by simp
    with Cons.IH obtain e where e: "low_stock items = Inl e" by blast
    from True obtain d where d: "item = PDict d"
      by (cases item) (auto simp: quantity_ok_def)
    from True d obtain b where "py_lt_int (dict_get d ''quantity'' (PInt 0)) 20 = Inr b"
      by (cases "map_of d ''quantity''") (auto simp: quantity_ok_def dict_get_def dest: is_number_lt)
    with d e show ?thesis by simp
  qed
qed

lemma and_then_Inr_iff: "and_then x f = Inr r \<longleftrightarrow> (\<exists>y. x = Inr y \<and> f y = Inr r)"
  by (cases x) auto

lemma explanation_confidence_values:
  assumes "fallback_explanation py question data query_type = Inr r"
  shows "dict_get r ''confidence'' PNone = PStr ''low'' \<or>
         dict_get r ''confidence'' PNone = PStr ''medium''"
proof (cases "truthy data")
  case False
  with assms show ?thesis by (auto simp: fallback_explanation_def dict_get_def)
next
  case True
  show ?thesis
  proof (cases "query_type = PStr ''inventory''")
    case inv: True
    with True assms show ?thesis
      by (cases data) (auto simp: fallback_explanation_def dict_get_def and_then_Inr_iff)
  next
    case not_inv: False
    show ?thesis
    proof (cases "query_type = PStr ''products''")
      case prod: True
      with True assms show ?thesis
        by (cases data) (auto simp: fallback_explanation_def dict_get_def generic_explanation_def)
    next
      case not_prod: False
      with True not_inv assms show ?thesis
        by (auto simp: fallback_explanation_def dict_get_def generic_explanation_def
            and_then_Inr_iff split: if_splits)
    qed
  qed
qed

lemma explanation_returns_iff:
  "(\<exists>r. fallback_explanation py question data query_type = Inr r)
     \<longleftrightarrow> explanation_returns data query_type"
proof (cases "truthy data")
  case False
  then show ?thesis by (simp add: fallback_explanation_def explanation_returns_def)
next
  case True
  show ?thesis
  proof (cases "query_type = PStr ''inventory''")
    case inv: True
    show ?thesis
    proof (cases data)
      case (PList items)
      with True have ne: "items \<noteq> []" by simp
      show ?thesis
      proof (cases "list_all quantity_ok items")
        case ok: True
        with True inv PList ne show ?thesis
          by (simp add: fallback_explanation_def explanation_returns_def low_stock_ok)
      next
        case bad: False
        then obtain e where "low_stock items = Inl e" using low_stock_raises by blast
        with True inv PList ne bad show ?thesis
          by (simp add: fallback_explanation_def explanation_returns_def)
      qed
    qed (use True inv in \<open>simp_all add: fallback_explanation_def explanation_returns_def\<close>)
  next
    case not_inv: False
    show ?thesis
    proof (cases "query_type = PStr ''products''")
      case prod: True
      with True show ?thesis
        by (cases data) (simp_all add: fallback_explanation_def explanation_returns_def)
    next
      case not_prod: False
      show ?thesis
      proof (cases "query_type = PStr ''sales''")
        case sales: True
        show ?thesis
        proof (cases data)
          case (PDict d)
          with True sales show ?thesis
            by (cases "format_2f (sales_total d)")
               (simp_all add: fallback_explanation_def explanation_returns_def sales_total_def)
        qed (use True sales in \<open>simp_all add: fallback_explanation_def explanation_returns_def\<close>)
      next
        case False
        with True not_inv not_prod show ?thesis
          by (simp add: fallback_explanation_def explanation_returns_def)
      qed
    qed
  qed
qed

text \<open>
  C9. Whatever the question, the data and the intent, a result of the fallback
  explanation has confidence low or medium, never high. The fallback returns such a
  result exactly on the inputs of \<open>explanation_returns\<close>; on the others (an inventory
  list with an entry that is no record or whose quantity is no number, sales data that
  are no record or whose total cannot be formatted) it raises.
\<close>

theorem fallback_explanation_confidence:
  "(\<forall>r. fallback_explanation py question data query_type = Inr r \<longrightarrow>
        (dict_get r ''confidence'' PNone = PStr ''low'' \<or>
         dict_get r ''confidence'' PNone = PStr ''medium'')
        \<and> dict_get r ''confidence'' PNone \<noteq> PStr ''high'')
   \<and> ((\<exists>r. fallback_explanation py question data query_type = Inr r)
        \<longleftrightarrow> explanation_returns data query_type)"
proof (intro conjI allI impI)
  fix r
  assume "fallback_explanation py question data query_type = Inr r"
  then have c: "dict_get r ''confidence'' PNone = PStr ''low'' \<or>
         dict_get r ''confidence'' PNone = PStr ''medium''"
    by (rule explanation_confidence_values)
  then show "dict_get r ''confidence'' PNone = PStr ''low'' \<or>
         dict_get r ''confidence'' PNone = PStr ''medium''" .
  from c show "dict_get r ''confidence'' PNone \<noteq> PStr ''high''" by auto
next
  show "(\<exists>r. fallback_explanation py question data query_type = Inr r)
        \<longleftrightarrow> explanation_returns data query_type"
    by (rule explanation_returns_iff)
qed

theorem fallback_explanation_confidence_witness:
  "fallback_explanation stub_runtime ''what is low?'' mock_inventory (PStr ''inventory'') =
     Inr [(''answer'', PStr ''Found 2 products with low inventory (less than 20 units). Consider reordering soon.''),
          (''confidence'', PStr ''medium'')]
   \<and> dict_get [(''answer'', PStr ''Found 2 products with low inventory (less than 20 units). Consider reordering soon.''),
          (''confidence'', PStr ''medium'')] ''confidence'' PNone \<noteq> PStr ''high''
   \<and> explanation_returns mock_inventory (PStr ''inventory'')"
proof -
  have run: "fallback_explanation stub_runtime ''what is low?'' mock_inventory (PStr ''inventory'') =
     Inr [(''answer'', PStr ''Found 2 products with low inventory (less than 20 units). Consider reordering soon.''),
          (''confidence'', PStr ''medium'')]"
    by code_simp
  from fallback_explanation_confidence
    [of stub_runtime "''what is low?''" mock_inventory "PStr ''inventory''"] run
  show ?thesis by blast
qed

text \<open>
  C10. In the inventory explanation of a non-empty list of records whose quantities,
  where present, are numbers, a record without a quantity is read as quantity 0, which
  is below 20, and is among the records counted in the answer: the count is that of the
  records that lack a quantity or have one below 20.
\<close>

theorem inventory_missing_quantity_counted:
  assumes "items \<noteq> []" and "\<forall>i \<in> set items. quantity_ok i"
  shows "low_stock items = Inr (filter (\<lambda>i. lacks_quantity i \<or> quantity_below_20 i) items)
     \<and> fallback_explanation py question (PList items) (PStr ''inventory'') =
         Inr [(''answer'', PStr (''Found '' @
                 show_nat (length (filter (\<lambda>i. lacks_quantity i \<or> quantity_below_20 i) items)) @
                 '' products with low inventory (less than 20 units). Consider reordering soon.'')),
              (''confidence'', PStr ''medium'')]
     \<and> (\<forall>i \<in> set items. lacks_quantity i \<longrightarrow>
           py_get i ''quantity'' (PInt 0) = Inr (PInt 0)
           \<and> py_lt_int (PInt 0) 20 = Inr True
           \<and> i \<in> set (filter (\<lambda>i. lacks_quantity i \<or> quantity_below_20 i) items))"
proof (intro conjI)
  from assms(2) have ok: "list_all quantity_ok items" by (simp add: list_all_iff)
  then show ls: "low_stock items = Inr (filter (\<lambda>i. lacks_quantity i \<or> quantity_below_20 i) items)"
    by (rule low_stock_ok)
  from assms(1) ls show "fallback_explanation py question (PList items) (PStr ''inventory'') =
         Inr [(''answer'', PStr (''Found '' @
                 show_nat (length (filter (\<lambda>i. lacks_quantity i \<or> quantity_below_20 i) items)) @
                 '' products with low inventory (less than 20 units). Consider reordering soon.'')),
              (''confidence'', PStr ''medium'')]"
    by (simp add: fallback_explanation_def)
  show "\<forall>i \<in> set items. lacks_quantity i \<longrightarrow>
           py_get i ''quantity'' (PInt 0) = Inr (PInt 0)
           \<and> py_lt_int (PInt 0) 20 = Inr True
           \<and> i \<in> set (filter (\<lambda>i. lacks_quantity i \<or> quantity_below_20 i) items)"
    by (auto simp: lacks_quantity_def dict_get_def split: pyval.splits)
qed

theorem inventory_missing_quantity_counted_witness:
  "[PDict [(''product_name'', PStr ''Product D'')],
    PDict [(''product_name'', PStr ''Product E''), (''quantity'', PInt 30)],
    PDict [(''product_name'', PStr ''Product F''), (''quantity'', PInt 7)]] \<noteq> []
   \<and> list_all quantity_ok
        [PDict [(''product_name'', PStr ''Product D'')],
         PDict [(''product_name'', PStr ''Product E''), (''quantity'', PInt 30)],
         PDict [(''product_name'', PStr ''Product F''), (''quantity'', PInt 7)]]
   \<and> lacks_quantity (PDict [(''product_name'', PStr ''Product D'')])
   \<and> low_stock
        [PDict [(''product_name'', PStr ''Product D'')],
         PDict [(''product_name'', PStr ''Product E''), (''quantity'', PInt 30)],
         PDict [(''product_name'', PStr ''Product F''), (''quantity'', PInt 7)]] =
       Inr [PDict [(''product_name'', PStr ''Product D'')],
            PDict [(''product_name'', PStr ''Product F''), (''quantity'', PInt 7)]]
   \<and> fallback_explanation stub_runtime ''what is low?''
        (PList [PDict [(''product_name'', PStr ''Product D'')],
                PDict [(''product_name'', PStr ''Product E''), (''quantity'', PInt 30)],
                PDict [(''product_name'', PStr ''Product F''), (''quantity'', PInt 7)]])
        (PStr ''inventory'') =
       Inr [(''answer'', PStr ''Found 2 products with low inventory (less than 20 units). Consider reordering soon.''),
            (''confidence'', PStr ''medium'')]"
proof -
  let ?items = "[PDict [(''product_name'', PStr ''Product D'')],
         PDict [(''product_name'', PStr ''Product E''), (''quantity'', PInt 30)],
         PDict [(''product_name'', PStr ''Product F''), (''quantity'', PInt 7)]]"
  have ne: "?items \<noteq> []" by simp
  have ok: "\<forall>i \<in> set ?items. quantity_ok i" by code_simp
  have ok': "list_all quantity_ok ?items" by code_simp
  have lacks: "lacks_quantity (PDict [(''product_name'', PStr ''Product D'')])" by code_simp
  have flt: "filter (\<lambda>i. lacks_quantity i \<or> quantity_below_20 i) ?items =
      [PDict [(''product_name'', PStr ''Product D'')],
       PDict [(''product_name'', PStr ''Product F''), (''quantity'', PInt 7)]]"
    by code_simp
  note counted =
    inventory_missing_quantity_counted [OF ne ok, of stub_runtime "''what is low?''", unfolded flt]
  from counted have a: "low_stock ?items =
       Inr [PDict [(''product_name'', PStr ''Product D'')],
            PDict [(''product_name'', PStr ''Product F''), (''quantity'', PInt 7)]]"
    by (rule conjunct1)
  have c: "''Found '' @
      show_nat (length [PDict [(''product_name'', PStr ''Product D'')],
                        PDict [(''product_name'', PStr ''Product F''), (''quantity'', PInt 7)]]) @
      '' products with low inventory (less than 20 units). Consider reordering soon.'' =
      ''Found 2 products with low inventory (less than 20 units). Consider reordering soon.''"
    by code_simp
  from counted have b: "fallback_explanation stub_runtime ''what is low?'' (PList ?items)
        (PStr ''inventory'') =
       Inr [(''answer'', PStr ''Found 2 products with low inventory (less than 20 units). Consider reordering soon.''),
            (''confidence'', PStr ''medium'')]"
    unfolding c by blast
  from ne ok' lacks a b show ?thesis by blast
qed






























subsection \<open>Store domain normalisation\<close>

lemma py_contains_sublist: "py_contains sub s \<longleftrightarrow> sublist sub s"
  by (induction s) (simp_all add: sublist_Cons_right)

lemma py_replace_absent:
  assumes "old \<noteq> []" and "\<not> py_contains old s"
  shows "py_replace old new s = s"
  using assms
proof (induction s)
  case Nil
  then show ?case by (simp add: py_replace.simps)
next
  case (Cons c cs)
  from Cons.prems have "\<not> prefix old (c # cs)" "\<not> py_contains old cs"
    by simp_all
  with Cons show ?case
    by (simp add: py_replace.simps [of old new "c # cs"])
qed

lemma hd_split_acc:
  "hd (split_acc [c] acc s) = rev acc @ takeWhile (\<lambda>x. x \<noteq> c) s"
proof (induction s arbitrary: acc)
  case Nil
  show ?case by (simp add: split_acc.simps [of _ _ "[]"])
next
  case (Cons x xs)
  show ?case
    by (simp add: split_acc.simps [of _ _ "x # xs"] Cons.IH)
qed

lemma hd_split_on: "hd (split_on [c] s) = takeWhile (\<lambda>x. x \<noteq> c) s"
  by (simp add: split_on_def hd_split_acc)

lemma split_acc_not_empty: "split_acc sep acc s \<noteq> []"
proof (induction sep acc s rule: split_acc.induct)
  case (1 sep acc s)
  show ?case
    by (subst split_acc.simps) (use 1 in \<open>auto split: list.splits\<close>)
qed

lemma sublist_chain:
  assumes "sublist w p" and "sublist p s"
  shows "sublist w s"
proof -
  from assms obtain a b c d where "p = a @ w @ b" "s = c @ p @ d"
    by (auto simp: sublist_def)
  then have "s = (c @ a) @ w @ (b @ d)" by simp
  then show ?thesis unfolding sublist_def by blast
qed

lemma no_scheme_across:
  assumes "\<not> sublist w p" and "\<not> sublist w (c # q)" and "c \<notin> set w"
  shows "\<not> sublist w (p @ c # q)"
proof
  assume "sublist w (p @ c # q)"
  with assms(1,2) obtain xs1 xs2 where w: "w = xs1 @ xs2" and s1: "suffix xs1 p"
    and p2: "prefix xs2 (c # q)"
    by (auto simp: sublist_append)
  show False
  proof (cases xs2)
    case Nil
    with w s1 assms(1) show False by auto
  next
    case (Cons y ys)
    with p2 have "y = c" by simp
    with Cons w assms(3) show False by simp
  qed
qed

lemma normalize_shop_suffix: "py_endswith (normalize_shop s) ''.myshopify.com''"
  by (simp add: normalize_shop_def py_endswith_def Let_def suffix_def)

lemma normalize_shop_keeps_clean:
  assumes "\<not> py_contains ''http://'' (strip_scheme s)"
    and "\<not> py_contains ''https://'' (strip_scheme s)"
  shows "\<not> py_contains ''http://'' (normalize_shop s) \<and> \<not> py_contains ''https://'' (normalize_shop s)"
proof (cases "py_endswith (strip_scheme s) ''.myshopify.com''")
  case True
  with assms show ?thesis
    by (simp add: normalize_shop_def strip_scheme_def)
next
  case False
  define p where "p = (if py_contains ''.'' (strip_scheme s) then hd (split_on ''.'' (strip_scheme s))
                       else strip_scheme s)"
  have n: "normalize_shop s = p @ ''.myshopify.com''"
    using False by (simp add: normalize_shop_def strip_scheme_def p_def Let_def)
  have sub: "sublist p (strip_scheme s)"
    by (simp add: p_def hd_split_on)
  have a: "\<not> sublist ''http://'' p"
    using assms(1) sub sublist_chain by (auto simp: py_contains_sublist)
  have b: "\<not> sublist ''https://'' p"
    using assms(2) sub sublist_chain by (auto simp: py_contains_sublist)
  have a': "\<not> sublist ''http://'' ''.myshopify.com''" by code_simp
  have b': "\<not> sublist ''https://'' ''.myshopify.com''" by code_simp
  have "\<not> sublist ''http://'' (p @ ''.myshopify.com'')"
    using a a' by (intro no_scheme_across) simp_all
  moreover have "\<not> sublist ''https://'' (p @ ''.myshopify.com'')"
    using b b' by (intro no_scheme_across) simp_all
  ultimately show ?thesis
    by (simp add: n py_contains_sublist)
qed

lemma normalize_shop_clean_fixed:
  assumes "py_endswith s ''.myshopify.com''"
    and "\<not> py_contains ''http://'' s" and "\<not> py_contains ''https://'' s"
  shows "normalize_shop s = s"
proof -
  have "strip_scheme s = s"
    using assms(2,3) by (simp add: strip_scheme_def py_replace_absent)
  with assms(1) show ?thesis
    by (simp add: normalize_shop_def strip_scheme_def)
qed

text \<open>
  C8, as stated, fails. \<^verbatim>\<open>replace\<close> scans once, so removing a scheme can bring
  another one together: \<^verbatim>\<open>hthttp://tp://shop\<close> is normalised to
  \<^verbatim>\<open>http://shop.myshopify.com\<close>, and that to \<^verbatim>\<open>shop.myshopify.com\<close>. And a scheme
  is removed wherever it stands, not only in front: \<^verbatim>\<open>xhttp://shop.myshopify.com\<close>
  ends with the suffix and starts with no scheme, and is changed.
\<close>

theorem normalize_shop_counterexample:
  "normalize_shop ''hthttp://tp://shop'' = ''http://shop.myshopify.com''
   \<and> normalize_shop (normalize_shop ''hthttp://tp://shop'') = ''shop.myshopify.com''
   \<and> normalize_shop (normalize_shop ''hthttp://tp://shop'') \<noteq> normalize_shop ''hthttp://tp://shop''
   \<and> py_endswith ''xhttp://shop.myshopify.com'' ''.myshopify.com''
   \<and> \<not> prefix ''http://'' ''xhttp://shop.myshopify.com''
   \<and> \<not> prefix ''https://'' ''xhttp://shop.myshopify.com''
   \<and> normalize_shop ''xhttp://shop.myshopify.com'' \<noteq> ''xhttp://shop.myshopify.com''"
  by code_simp

text \<open>
  C8, amended. A store id that ends with \<^verbatim>\<open>.myshopify.com\<close> and contains neither
  \<^verbatim>\<open>http://\<close> nor \<^verbatim>\<open>https://\<close> is returned unchanged. Every normalised id ends
  with \<^verbatim>\<open>.myshopify.com\<close>, and normalising twice is normalising once for every
  store id in which no scheme is left after the two removals.
\<close>

theorem normalize_shop_idempotent:
  "(py_endswith s ''.myshopify.com'' \<and> \<not> py_contains ''http://'' s \<and> \<not> py_contains ''https://'' s
      \<longrightarrow> normalize_shop s = s)
   \<and> py_endswith (normalize_shop s) ''.myshopify.com''
   \<and> (\<not> py_contains ''http://'' (strip_scheme s) \<and> \<not> py_contains ''https://'' (strip_scheme s)
      \<longrightarrow> normalize_shop (normalize_shop s) = normalize_shop s)"
proof (intro conjI impI)
  assume "py_endswith s ''.myshopify.com'' \<and> \<not> py_contains ''http://'' s \<and> \<not> py_contains ''https://'' s"
  then show "normalize_shop s = s"
    using normalize_shop_clean_fixed by blast
next
  show "py_endswith (normalize_shop s) ''.myshopify.com''"
    by (rule normalize_shop_suffix)
next
  assume "\<not> py_contains ''http://'' (strip_scheme s) \<and> \<not> py_contains ''https://'' (strip_scheme s)"
  then have "\<not> py_contains ''http://'' (normalize_shop s) \<and> \<not> py_contains ''https://'' (normalize_shop s)"
    using normalize_shop_keeps_clean by blast
  with normalize_shop_suffix [of s] show "normalize_shop (normalize_shop s) = normalize_shop s"
    using normalize_shop_clean_fixed by blast
qed

theorem normalize_shop_idempotent_witness:
  "py_endswith ''my-shop.myshopify.com'' ''.myshopify.com''
   \<and> \<not> py_contains ''http://'' ''my-shop.myshopify.com''
   \<and> \<not> py_contains ''https://'' ''my-shop.myshopify.com''
   \<and> normalize_shop ''my-shop.myshopify.com'' = ''my-shop.myshopify.com''
   \<and> \<not> py_contains ''http://'' (strip_scheme ''https://my-shop.example.com'')
   \<and> \<not> py_contains ''https://'' (strip_scheme ''https://my-shop.example.com'')
   \<and> normalize_shop ''https://my-shop.example.com'' = ''my-shop.myshopify.com''
   \<and> normalize_shop (normalize_shop ''https://my-shop.example.com'') =
       normalize_shop ''https://my-shop.example.com''"
proof -
  have h1: "py_endswith ''my-shop.myshopify.com'' ''.myshopify.com''" by code_simp
  have h2: "\<not> py_contains ''http://'' ''my-shop.myshopify.com''" by code_simp
  have h3: "\<not> py_contains ''https://'' ''my-shop.myshopify.com''" by code_simp
  have h4: "\<not> py_contains ''http://'' (strip_scheme ''https://my-shop.example.com'')" by code_simp
  have h5: "\<not> py_contains ''https://'' (strip_scheme ''https://my-shop.example.com'')" by code_simp
  have h6: "normalize_shop ''https://my-shop.example.com'' = ''my-shop.myshopify.com''" by code_simp
  from normalize_shop_idempotent [of "''my-shop.myshopify.com''"]
    normalize_shop_idempotent [of "''https://my-shop.example.com''"] h1 h2 h3 h4 h5 h6
  show ?thesis by blast
qed

subsection \<open>The Shopify client\<close>

lemma swallow_Some_iff: "swallow x = Some r \<longleftrightarrow> x = Inr r"
  by (cases x) auto

lemma get_mock_data_shape:
  "\<exists>x. get_mock_data query_type query = [(''data'', x), (''success'', PBool True)]"
  by (simp add: get_mock_data_def)

lemma get_mock_data_query: "get_mock_data query_type query = get_mock_data query_type query'"
  by (simp add: get_mock_data_def)

lemma get_inventory_data_shape:
  "\<exists>x. snd (get_inventory_data w shop token) = [(''data'', x), (''success'', PBool True)]"
proof (cases "http_get w (''https://'' @ shop @ ''/admin/api/'' @ api_version @ ''/inventory_levels.json'')
                [(''X-Shopify-Access-Token'', token)]")
  case HttpRaises
  then show ?thesis
    using get_mock_data_shape by (simp add: get_inventory_data_def Let_def)
next
  case (HttpResponse status_code json)
  then show ?thesis
    using get_mock_data_shape
    by (auto simp: get_inventory_data_def Let_def swallow_Some_iff and_then_Inr_iff
        split: option.splits)
qed

lemma get_orders_data_shape:
  "\<exists>x. snd (get_orders_data py w shop token query) = [(''data'', x), (''success'', PBool True)]"
proof (cases "http_get w (''https://'' @ shop @ ''/admin/api/'' @ api_version @
                ''/orders.json?status=any&limit=250'') [(''X-Shopify-Access-Token'', token)]")
  case HttpRaises
  then show ?thesis
    using get_mock_data_shape by (simp add: get_orders_data_def Let_def)
next
  case (HttpResponse status_code json)
  then show ?thesis
    using get_mock_data_shape
    by (auto simp: get_orders_data_def Let_def swallow_Some_iff and_then_Inr_iff
        split: option.splits)
qed

lemma get_customers_data_shape:
  "\<exists>x. snd (get_customers_data w shop token query) = [(''data'', x), (''success'', PBool True)]"
proof (cases "http_get w (''https://'' @ shop @ ''/admin/api/'' @ api_version @
                ''/customers.json?limit=250'') [(''X-Shopify-Access-Token'', token)]")
  case HttpRaises
  then show ?thesis
    using get_mock_data_shape by (simp add: get_customers_data_def Let_def)
next
  case (HttpResponse status_code json)
  then show ?thesis
    using get_mock_data_shape
    by (auto simp: get_customers_data_def Let_def swallow_Some_iff and_then_Inr_iff
        split: option.splits)
qed

lemma get_products_data_shape:
  assumes "snd (get_products_data py w shop token query) = Inr r"
  shows "\<exists>x. r = [(''data'', x), (''success'', PBool True)]"
proof (cases query)
  case (PStr q)
  show ?thesis
  proof (cases "http_get w (''https://'' @ shop @ ''/admin/api/'' @ api_version @
                  ''/products.json?limit='' @ show_int (parse_limit py q))
                  [(''X-Shopify-Access-Token'', token)]")
    case HttpRaises
    with PStr assms show ?thesis
      using get_mock_data_shape by (auto simp: get_products_data_def Let_def)
  next
    case (HttpResponse status_code json)
    with PStr assms show ?thesis
      using get_mock_data_shape
      by (auto simp: get_products_data_def Let_def swallow_Some_iff and_then_Inr_iff
          split: option.splits if_splits)
  qed
qed (use assms in \<open>simp_all add: get_products_data_def\<close>)

lemma get_products_data_str:
  "\<exists>r. snd (get_products_data py w shop token (PStr q)) = Inr r"
  by (simp add: get_products_data_def Let_def)

lemma execute_query_snd:
  "snd (execute_query py w store_id query query_type) =
     (let shop = normalize_shop store_id;
          token = (case getenv w (token_variable shop) of Some t \<Rightarrow> t | None \<Rightarrow> [])
      in if token = [] then Inr (get_mock_data query_type query)
         else if query_type = PStr ''inventory'' then Inr (snd (get_inventory_data w shop token))
         else if query_type = PStr ''products'' then snd (get_products_data py w shop token query)
         else if query_type = PStr ''sales'' then Inr (snd (get_orders_data py w shop token query))
         else if query_type = PStr ''customers'' then Inr (snd (get_customers_data w shop token query))
         else Inr (get_mock_data query_type query))"
  by (simp add: execute_query_def Let_def)

lemma execute_query_shape:
  assumes "snd (execute_query py w store_id query query_type) = Inr r"
  shows "\<exists>x. r = [(''data'', x), (''success'', PBool True)]"
proof -
  define shop where "shop = normalize_shop store_id"
  define token where
    "token = (case getenv w (token_variable shop) of Some t \<Rightarrow> t | None \<Rightarrow> [])"
  from assms have
    "r = get_mock_data query_type query
     \<or> r = snd (get_inventory_data w shop token)
     \<or> snd (get_products_data py w shop token query) = Inr r
     \<or> r = snd (get_orders_data py w shop token query)
     \<or> r = snd (get_customers_data w shop token query)"
    unfolding execute_query_snd shop_def token_def Let_def
    by (auto split: if_splits)
  then show ?thesis
    using get_mock_data_shape [of query_type query]
      get_inventory_data_shape [of w shop token]
      get_products_data_shape [of py w shop token query r]
      get_orders_data_shape [of py w shop token query]
      get_customers_data_shape [of w shop token query]
    by auto
qed

lemma execute_query_no_token:
  assumes "getenv w (token_variable (normalize_shop store_id)) \<in> {None, Some []}"
  shows "execute_query py w store_id query query_type = ([], Inr (get_mock_data query_type query))"
proof -
  from assms have "(case getenv w (token_variable (normalize_shop store_id)) of
                      Some t \<Rightarrow> t | None \<Rightarrow> []) = []"
    by auto
  then show ?thesis
    by (simp add: execute_query_def Let_def)
qed

lemma execute_query_str_returns:
  "\<exists>r. snd (execute_query py w store_id (PStr q) query_type) = Inr r"
  using get_products_data_str [of py w "normalize_shop store_id" _ q]
  by (simp add: execute_query_snd Let_def)

lemma execute_query_requests:
  "length (fst (execute_query py w store_id query query_type)) \<le> 1"
  by (cases query)
     (simp_all add: execute_query_def Let_def get_inventory_data_def get_products_data_def
        get_orders_data_def get_customers_data_def)

lemma failed_call_gives_nothing:
  assumes "live_call_failed outcome"
  shows "(case outcome of
            HttpRaises \<Rightarrow> None
          | HttpResponse status_code json \<Rightarrow>
              if status_code = 200 then swallow (and_then json f) else None) = None"
proof (cases outcome)
  case HttpRaises
  then show ?thesis by simp
next
  case (HttpResponse status_code json)
  with assms show ?thesis by (cases json) auto
qed

lemma execute_query_failed_call:
  assumes "query_type \<in> {PStr ''sales'', PStr ''inventory'', PStr ''customers'', PStr ''products''}"
    and "live_call_failed outcome"
  shows "snd (execute_query py (w\<lparr>http_get := (\<lambda>url headers. outcome)\<rparr>) store_id (PStr q) query_type)
          = Inr (get_mock_data query_type (PStr q))"
proof -
  have none: "\<And>f. (case outcome of
            HttpRaises \<Rightarrow> None
          | HttpResponse status_code json \<Rightarrow>
              if status_code = 200 then swallow (and_then json f) else None) = None"
    using assms(2) by (rule failed_call_gives_nothing)
  have inv: "get_mock_data (PStr ''inventory'') (PStr []) = get_mock_data (PStr ''inventory'') (PStr q)"
    by (rule get_mock_data_query)
  from assms(1) show ?thesis
    by (auto simp: execute_query_snd Let_def get_inventory_data_def get_products_data_def
        get_orders_data_def get_customers_data_def none inv)
qed

lemma shaped_result_no_error:
  assumes "r = [(''data'', x), (''success'', PBool True)]"
  shows "dict_get r ''success'' PNone = PBool True" and "map_of r ''error'' = None"
    and "\<not> truthy (dict_get r ''error'' PNone)" and "dict_get r ''data'' d = x"
  using assms by (simp_all add: dict_get_def)

lemma failed_branch_unreachable: "\<not> failed_to_execute_branch py w question store_id"
proof -
  have "\<not> truthy (dict_get r ''error'' PNone)"
    if "snd (execute_query py w store_id query query_type) = Inr r" for query query_type r
    using execute_query_shape [OF that] shaped_result_no_error(3) by blast
  then show ?thesis
    by (auto simp: failed_to_execute_branch_def Let_def split: sum.splits)
qed

lemma process_question_results:
  "process_question py w question store_id = generate_shopifyql_query w question store_id
   \<or> (\<exists>e. process_question py w question store_id = agent_error py e)
   \<or> (\<exists>a c q d. process_question py w question store_id =
         [(''answer'', a), (''confidence'', c), (''query_used'', q), (''data'', d)])"
proof -
  have "\<not> truthy (dict_get r ''error'' PNone)"
    if "snd (execute_query py w store_id query query_type) = Inr r" for query query_type r
    using execute_query_shape [OF that] shaped_result_no_error(3) by blast
  then show ?thesis
    by (auto simp: process_question_def Let_def split: sum.splits)
qed

text \<open>
  C2. With one of the four intents and a query that is a string, \<open>execute_query\<close>
  returns a result with \<^verbatim>\<open>success\<close> true and no \<^verbatim>\<open>error\<close> entry, after at most one
  request, whatever the outcome of the request; when the request raises, answers with
  a status other than 200 or with a body that is not JSON, the result is the mock data
  of the intent. Hence \<open>process_question\<close> never enters its branch
  \<^verbatim>\<open>Failed to execute query\<close>: its result is the classifier's own result, an agent
  processing error, or a full answer.
\<close>

theorem execute_query_degrades:
  assumes "query_type \<in> {PStr ''sales'', PStr ''inventory'', PStr ''customers'', PStr ''products''}"
  shows "(\<exists>r. snd (execute_query py w store_id (PStr query) query_type) = Inr r
              \<and> dict_get r ''success'' PNone = PBool True \<and> map_of r ''error'' = None)
     \<and> length (fst (execute_query py w store_id (PStr query) query_type)) \<le> 1
     \<and> (live_call_failed outcome \<longrightarrow>
           snd (execute_query py (w\<lparr>http_get := (\<lambda>url headers. outcome)\<rparr>) store_id (PStr query)
                  query_type) = Inr (get_mock_data query_type (PStr query)))
     \<and> \<not> failed_to_execute_branch py w question store_id
     \<and> (process_question py w question store_id = generate_shopifyql_query w question store_id
          \<or> (\<exists>e. process_question py w question store_id = agent_error py e)
          \<or> (\<exists>a c q d. process_question py w question store_id =
                [(''answer'', a), (''confidence'', c), (''query_used'', q), (''data'', d)]))"
proof (intro conjI impI)
  obtain r where r: "snd (execute_query py w store_id (PStr query) query_type) = Inr r"
    using execute_query_str_returns by blast
  then obtain x where "r = [(''data'', x), (''success'', PBool True)]"
    using execute_query_shape by blast
  with r show "\<exists>r. snd (execute_query py w store_id (PStr query) query_type) = Inr r
              \<and> dict_get r ''success'' PNone = PBool True \<and> map_of r ''error'' = None"
    using shaped_result_no_error(1,2) by blast
next
  show "length (fst (execute_query py w store_id (PStr query) query_type)) \<le> 1"
    by (rule execute_query_requests)
next
  assume "live_call_failed outcome"
  with assms show "snd (execute_query py (w\<lparr>http_get := (\<lambda>url headers. outcome)\<rparr>) store_id
      (PStr query) query_type) = Inr (get_mock_data query_type (PStr query))"
    by (rule execute_query_failed_call)
next
  show "\<not> failed_to_execute_branch py w question store_id"
    by (rule failed_branch_unreachable)
next
  show "process_question py w question store_id = generate_shopifyql_query w question store_id
          \<or> (\<exists>e. process_question py w question store_id = agent_error py e)
          \<or> (\<exists>a c q d. process_question py w question store_id =
                [(''answer'', a), (''confidence'', c), (''query_used'', q), (''data'', d)])"
    by (rule process_question_results)
qed

theorem execute_query_degrades_witness:
  "PStr ''sales'' \<in> {PStr ''sales'', PStr ''inventory'', PStr ''customers'', PStr ''products''}
   \<and> live_call_failed (HttpResponse 503 (Inl ValueError))
   \<and> getenv failing_shop_world (token_variable (normalize_shop ''my-shop'')) = Some ''shpat_token''
   \<and> snd (execute_query stub_runtime failing_shop_world ''my-shop''
             (PStr ''SHOW total_sales FROM orders SINCE -30d'') (PStr ''sales'')) =
       Inr [(''data'', mock_sales), (''success'', PBool True)]"
proof -
  have h1: "PStr ''sales'' \<in> {PStr ''sales'', PStr ''inventory'', PStr ''customers'', PStr ''products''}"
    by simp
  have h2: "live_call_failed (HttpResponse 503 (Inl ValueError))"
    by simp
  have h3: "getenv failing_shop_world (token_variable (normalize_shop ''my-shop'')) = Some ''shpat_token''"
    by (simp add: failing_shop_world_def)
  have same: "failing_shop_world\<lparr>http_get := (\<lambda>url headers. HttpResponse 503 (Inl ValueError))\<rparr>
      = failing_shop_world"
    by (simp add: failing_shop_world_def)
  have mock: "get_mock_data (PStr ''sales'') (PStr ''SHOW total_sales FROM orders SINCE -30d'') =
      [(''data'', mock_sales), (''success'', PBool True)]"
    by (simp add: get_mock_data_def)
  note degrades = execute_query_degrades [OF h1, of stub_runtime failing_shop_world "''my-shop''"
      "''SHOW total_sales FROM orders SINCE -30d''" "HttpResponse 503 (Inl ValueError)"]
  note failed = degrades [THEN conjunct2, THEN conjunct2, THEN conjunct1, THEN mp, OF h2,
      unfolded same mock]
  have run: "snd (execute_query stub_runtime failing_shop_world ''my-shop''
             (PStr ''SHOW total_sales FROM orders SINCE -30d'') (PStr ''sales'')) =
       Inr [(''data'', mock_sales), (''success'', PBool True)]"
    by (rule failed)
  show ?thesis by (intro conjI h1 h2 h3 run)
qed

lemma mock_total_exact: "to_double 12500.50 = Fin 12500.50"
  by code_simp

text \<open>
  C3. Where the environment holds no access token for the store (the variable is not
  set, or is empty), \<open>execute_query\<close> requests nothing and returns the mock data of the
  intent, with \<^verbatim>\<open>success\<close> true, for every intent. The mock sales data have
  \<^verbatim>\<open>total_sales\<close> 12500.50 exactly, \<^verbatim>\<open>order_count\<close> 45 and as
  \<^verbatim>\<open>average_order_value\<close> the float 277.79; the mock inventory has three records, and
  the one named \<^verbatim>\<open>Product B\<close> has quantity 5.
\<close>

theorem execute_query_without_token:
  assumes "getenv w (token_variable (normalize_shop store_id)) \<in> {None, Some []}"
  shows "execute_query py w store_id query query_type = ([], Inr (get_mock_data query_type query))
     \<and> dict_get (get_mock_data query_type query) ''success'' PNone = PBool True
     \<and> get_mock_data (PStr ''sales'') query = [(''data'', mock_sales), (''success'', PBool True)]
     \<and> get_mock_data (PStr ''inventory'') query = [(''data'', mock_inventory), (''success'', PBool True)]
     \<and> get_mock_data (PStr ''customers'') query = [(''data'', mock_customers), (''success'', PBool True)]
     \<and> get_mock_data (PStr ''products'') query = [(''data'', mock_products), (''success'', PBool True)]
     \<and> mock_sales = PDict [(''total_sales'', PFloat (Fin 12500.50)),
                            (''order_count'', PInt 45),
                            (''average_order_value'', PFloat (to_double 277.79)),
                            (''period'', PStr ''last 30 days'')]
     \<and> py_len mock_inventory = Inr 3
     \<and> map (\<lambda>i. py_get i ''quantity'' PNone) (records_named ''Product B'' mock_inventory) =
         [Inr (PInt 5)]"
proof (intro conjI)
  show "execute_query py w store_id query query_type = ([], Inr (get_mock_data query_type query))"
    using assms by (rule execute_query_no_token)
  show "dict_get (get_mock_data query_type query) ''success'' PNone = PBool True"
    by (simp add: get_mock_data_def dict_get_def)
  show "get_mock_data (PStr ''sales'') query = [(''data'', mock_sales), (''success'', PBool True)]"
    by (simp add: get_mock_data_def)
  show "get_mock_data (PStr ''inventory'') query = [(''data'', mock_inventory), (''success'', PBool True)]"
    by (simp add: get_mock_data_def)
  show "get_mock_data (PStr ''customers'') query = [(''data'', mock_customers), (''success'', PBool True)]"
    by (simp add: get_mock_data_def)
  show "get_mock_data (PStr ''products'') query = [(''data'', mock_products), (''success'', PBool True)]"
    by (simp add: get_mock_data_def)
  show "mock_sales = PDict [(''total_sales'', PFloat (Fin 12500.50)),
                            (''order_count'', PInt 45),
                            (''average_order_value'', PFloat (to_double 277.79)),
                            (''period'', PStr ''last 30 days'')]"
    unfolding mock_sales_def mock_total_exact by (rule refl)
  show "py_len mock_inventory = Inr 3"
    by (simp add: mock_inventory_def)
  show "map (\<lambda>i. py_get i ''quantity'' PNone) (records_named ''Product B'' mock_inventory) =
         [Inr (PInt 5)]"
    by (simp add: records_named_def mock_inventory_def dict_get_def)
qed

theorem execute_query_without_token_witness:
  "getenv offline_world (token_variable (normalize_shop ''https://my-shop.myshopify.com'')) \<in> {None, Some []}
   \<and> execute_query stub_runtime offline_world ''https://my-shop.myshopify.com''
        (PStr ''SHOW inventory_levels FROM products'') (PStr ''inventory'') =
       ([], Inr [(''data'', mock_inventory), (''success'', PBool True)])"
proof -
  have h: "getenv offline_world (token_variable (normalize_shop ''https://my-shop.myshopify.com''))
      \<in> {None, Some []}"
    by (simp add: offline_world_def)
  from execute_query_without_token [OF h, of stub_runtime "PStr ''SHOW inventory_levels FROM products''"
      "PStr ''inventory''"]
  have "execute_query stub_runtime offline_world ''https://my-shop.myshopify.com''
        (PStr ''SHOW inventory_levels FROM products'') (PStr ''inventory'') =
       ([], Inr [(''data'', mock_inventory), (''success'', PBool True)])"
    by (simp add: get_mock_data_def)
  with h show ?thesis by (intro conjI)
qed

subsection \<open>The pipeline without credentials\<close>

lemma top5_fallback:
  "fallback_query_generation ''what are my top 5 selling products'' =
     [(''intent'', PStr ''products''),
      (''query'', PStr ''SHOW top_selling_products FROM orders SINCE -7d LIMIT 5'')]"
  by code_simp

lemma my_shop_variable:
  "token_variable (normalize_shop ''my-shop'') = ''SHOPIFY_ACCESS_TOKEN_my-shop_myshopify_com''"
  by code_simp

lemma mock_products_explanation:
  "fallback_explanation py question mock_products (PStr ''products'') =
     Inr [(''answer'', PStr ''Found 3 top-selling products. Review the list to identify your best performers.''),
          (''confidence'', PStr ''medium'')]"
proof -
  have "show_nat (Suc (Suc (Suc 0))) = ''3''" by code_simp
  then show ?thesis
    by (simp add: fallback_explanation_def mock_products_def)
qed

text \<open>
  C1. For the store \<^verbatim>\<open>my-shop\<close> and the question
  \<^verbatim>\<open>what are my top 5 selling products\<close>, when both chat completions raise and the
  environment holds no access token for the store, the classifier yields the intent
  products with a query that contains \<^verbatim>\<open>LIMIT 5\<close>, nothing is requested from
  Shopify, and \<open>process_question\<close> returns no error: the answer starts with
  \<^verbatim>\<open>Found 3 top-selling products\<close>, the confidence is medium, and the data are the
  three mock products.
\<close>

theorem process_question_offline:
  assumes "llm_classify w ''what are my top 5 selling products'' = LLMRaises"
    and "llm_explain w ''what are my top 5 selling products'' mock_products (PStr ''products'')
           = LLMRaises"
    and "getenv w ''SHOPIFY_ACCESS_TOKEN_my-shop_myshopify_com'' \<in> {None, Some []}"
  shows "process_question py w ''what are my top 5 selling products'' ''my-shop'' =
           [(''answer'', PStr ''Found 3 top-selling products. Review the list to identify your best performers.''),
            (''confidence'', PStr ''medium''),
            (''query_used'', PStr ''SHOW top_selling_products FROM orders SINCE -7d LIMIT 5''),
            (''data'', mock_products)]
     \<and> map_of (process_question py w ''what are my top 5 selling products'' ''my-shop'') ''error'' = None
     \<and> generate_shopifyql_query w ''what are my top 5 selling products'' ''my-shop'' =
           [(''intent'', PStr ''products''),
            (''query'', PStr ''SHOW top_selling_products FROM orders SINCE -7d LIMIT 5'')]
     \<and> py_contains ''LIMIT 5'' ''SHOW top_selling_products FROM orders SINCE -7d LIMIT 5''
     \<and> execute_query py w ''my-shop''
          (PStr ''SHOW top_selling_products FROM orders SINCE -7d LIMIT 5'') (PStr ''products'') =
           ([], Inr [(''data'', mock_products), (''success'', PBool True)])
     \<and> py_len mock_products = Inr 3
     \<and> prefix ''Found 3 top-selling products''
          ''Found 3 top-selling products. Review the list to identify your best performers.''"
proof -
  let ?q = "''what are my top 5 selling products''"
  let ?query = "PStr ''SHOW top_selling_products FROM orders SINCE -7d LIMIT 5''"
  have gen: "generate_shopifyql_query w ?q ''my-shop'' =
      [(''intent'', PStr ''products''), (''query'', ?query)]"
    using assms(1) by (simp add: generate_shopifyql_query_def top5_fallback)
  have "getenv w (token_variable (normalize_shop ''my-shop'')) \<in> {None, Some []}"
    using assms(3) by (simp only: my_shop_variable)
  then have "execute_query py w ''my-shop'' ?query (PStr ''products'') =
      ([], Inr (get_mock_data (PStr ''products'') ?query))"
    by (rule execute_query_no_token)
  then have ex: "execute_query py w ''my-shop'' ?query (PStr ''products'') =
      ([], Inr [(''data'', mock_products), (''success'', PBool True)])"
    by (simp add: get_mock_data_def)
  have expl: "generate_explanation py w ?q mock_products (PStr ''products'') =
      Inr [(''answer'', PStr ''Found 3 top-selling products. Review the list to identify your best performers.''),
           (''confidence'', PStr ''medium'')]"
    using assms(2) by (simp add: generate_explanation_def mock_products_explanation)
  have run: "process_question py w ?q ''my-shop'' =
           [(''answer'', PStr ''Found 3 top-selling products. Review the list to identify your best performers.''),
            (''confidence'', PStr ''medium''),
            (''query_used'', ?query),
            (''data'', mock_products)]"
    by (simp add: process_question_def gen ex expl dict_get_def)
  have no_error: "map_of (process_question py w ?q ''my-shop'') ''error'' = None"
    unfolding run by simp
  have limit: "py_contains ''LIMIT 5'' ''SHOW top_selling_products FROM orders SINCE -7d LIMIT 5''"
    by code_simp
  have three: "py_len mock_products = Inr 3"
    by (simp add: mock_products_def)
  have starts: "prefix ''Found 3 top-selling products''
          ''Found 3 top-selling products. Review the list to identify your best performers.''"
    by simp
  show ?thesis by (intro conjI run no_error gen limit ex three starts)
qed

theorem process_question_offline_witness:
  "llm_classify offline_world ''what are my top 5 selling products'' = LLMRaises
   \<and> llm_explain offline_world ''what are my top 5 selling products'' mock_products
        (PStr ''products'') = LLMRaises
   \<and> getenv offline_world ''SHOPIFY_ACCESS_TOKEN_my-shop_myshopify_com'' \<in> {None, Some []}
   \<and> process_question stub_runtime offline_world ''what are my top 5 selling products'' ''my-shop'' =
           [(''answer'', PStr ''Found 3 top-selling products. Review the list to identify your best performers.''),
            (''confidence'', PStr ''medium''),
            (''query_used'', PStr ''SHOW top_selling_products FROM orders SINCE -7d LIMIT 5''),
            (''data'', mock_products)]"
proof -
  have h1: "llm_classify offline_world ''what are my top 5 selling products'' = LLMRaises"
    by (simp add: offline_world_def)
  have h2: "llm_explain offline_world ''what are my top 5 selling products'' mock_products
        (PStr ''products'') = LLMRaises"
    by (simp add: offline_world_def)
  have h3: "getenv offline_world ''SHOPIFY_ACCESS_TOKEN_my-shop_myshopify_com'' \<in> {None, Some []}"
    by (simp add: offline_world_def)
  from process_question_offline [OF h1 h2 h3, of stub_runtime]
  have run: "process_question stub_runtime offline_world ''what are my top 5 selling products'' ''my-shop'' =
           [(''answer'', PStr ''Found 3 top-selling products. Review the list to identify your best performers.''),
            (''confidence'', PStr ''medium''),
            (''query_used'', PStr ''SHOW top_selling_products FROM orders SINCE -7d LIMIT 5''),
            (''data'', mock_products)]"
    by (rule conjunct1)
  show ?thesis by (intro conjI h1 h2 h3 run)
qed

end
